theory Spec2Isabelle
  imports Main
begin

section \<open>Errors raised by the two orchestrators\<close>

text \<open>
  Every \<^verbatim>\<open>raise\<close> of the source (and every exception of the Python runtime that the
  modelled lines can provoke) is a value of this type. A failing call returns
  \<open>Inl\<close> of the error, paired with the object state at the moment of the raise where
  that state is observable afterwards.
\<close>

datatype error =
    ValueError_missing_types "string list"
  | ValueError_sequence
  | ValueError_range_step
  | ValueError_concat
  | NotImplementedError
  | AttributeError
  | IndexError

section \<open>Tracklet\<close>

text \<open>
  Modelled from the spec: the class \<^verbatim>\<open>Tracklet\<close> (\<^verbatim>\<open>sportslabkit.types.tracklet\<close>) is
  imported by both orchestrators but is not among the source files. The record holds
  the attributes the orchestrators read and write (\<^verbatim>\<open>id\<close>, \<^verbatim>\<open>staleness\<close>) and the ones the
  spec's data model names; \<open>observations\<close> is the append-only history, one entry per
  update call, \<open>None\<close> being the miss sentinel. The attached motion model is opaque to
  the orchestrators and is left out.
\<close>

record 'o tracklet =
  tid :: nat
  staleness :: nat
  t_max_staleness :: int
  observation_types :: "string list"
  state_types :: "string list"
  observations :: "'o option list"
  last_updated_step :: "nat option"
  steps_alive :: nat
  terminal :: bool

text \<open>Modelled from the spec: the constructor; a new tracklet has staleness 0 and an
  identifier of its own (the caller supplies the fresh identifier, standing for the
  random one the class draws).\<close>

definition Tracklet :: "nat \<Rightarrow> int \<Rightarrow> 'o tracklet" where
  "Tracklet fresh_id max_st =
     \<lparr>tid = fresh_id, staleness = 0, t_max_staleness = max_st, observation_types = [],
      state_types = [], observations = [], last_updated_step = None, steps_alive = 0,
      terminal = False\<rparr>"

text \<open>Modelled from the spec: \<^verbatim>\<open>is_stale()\<close> is true iff \<^verbatim>\<open>staleness > max_staleness\<close>.\<close>

definition is_stale :: "'o tracklet \<Rightarrow> bool" where
  "is_stale t = (t_max_staleness t < int (staleness t))"

text \<open>Modelled from the spec: \<^verbatim>\<open>len(tracklet)\<close>, the number of frames recorded in the
  history, miss sentinels included.\<close>

definition len_tracklet :: "'o tracklet \<Rightarrow> nat" where
  "len_tracklet t = length (observations t)"

text \<open>Modelled from the spec: \<^verbatim>\<open>cleanup()\<close> marks the terminal status and changes nothing
  else.\<close>

definition cleanup :: "'o tracklet \<Rightarrow> 'o tracklet" where
  "cleanup t = t\<lparr>terminal := True\<rparr>"

text \<open>Modelled from the spec: \<^verbatim>\<open>update(detection_or_none, step)\<close>. With a detection the
  observation is appended, staleness is reset and the step recorded; without one a
  miss sentinel is appended and staleness grows by one. The step is optional because
  the factory call of the second orchestrator passes none.\<close>

fun update :: "'o tracklet \<Rightarrow> 'o option \<Rightarrow> nat option \<Rightarrow> 'o tracklet" where
  "update t (Some d) global_step =
     t\<lparr>observations := observations t @ [Some d], staleness := 0,
       last_updated_step := global_step\<rparr>"
| "update t None global_step =
     t\<lparr>observations := observations t @ [None], staleness := staleness t + 1\<rparr>"

text \<open>Modelled from the spec: the helpers \<^verbatim>\<open>update_observations\<close>, \<^verbatim>\<open>increment_counter\<close>,
  \<^verbatim>\<open>register_observation_type\<close> and \<^verbatim>\<open>register_state_type\<close> that
  \<^verbatim>\<open>update_tracklet\<close> and \<^verbatim>\<open>create_tracklet\<close> call. None of them touches \<^verbatim>\<open>staleness\<close>,
  which \<^verbatim>\<open>mot/base.py\<close> manages itself.\<close>

definition update_observations :: "'o tracklet \<Rightarrow> 'o \<Rightarrow> nat \<Rightarrow> 'o tracklet" where
  "update_observations t states global_step =
     t\<lparr>observations := observations t @ [Some states],
       last_updated_step := Some global_step\<rparr>"

definition increment_counter :: "'o tracklet \<Rightarrow> 'o tracklet" where
  "increment_counter t = t\<lparr>steps_alive := steps_alive t + 1\<rparr>"

definition register_observation_type :: "'o tracklet \<Rightarrow> string \<Rightarrow> 'o tracklet" where
  "register_observation_type t ty = t\<lparr>observation_types := observation_types t @ [ty]\<rparr>"

definition register_state_type :: "'o tracklet \<Rightarrow> string \<Rightarrow> 'o tracklet" where
  "register_state_type t ty = t\<lparr>state_types := state_types t @ [ty]\<rparr>"

section \<open>The ABC-based orchestrator (\<^verbatim>\<open>sportslabkit/mot/base.py\<close>)\<close>

text \<open>A state dictionary \<^verbatim>\<open>Dict[str, Any]\<close> is an association list; \<^verbatim>\<open>k in d\<close> is
  membership of \<open>k\<close> in the keys.\<close>

type_synonym 'v states = "(string \<times> 'v) list"

text \<open>The attributes of \<^verbatim>\<open>MultiObjectTracker\<close>. The two abstract properties
  \<^verbatim>\<open>required_observation_types\<close> and \<^verbatim>\<open>required_state_types\<close> are supplied by the
  subclass; here they are fields.\<close>

record 'v base_mot =
  window_size :: int
  step_size :: int
  max_staleness :: int
  min_length :: int
  alive_tracklets :: "'v states tracklet list"
  dead_tracklets :: "'v states tracklet list"
  frame_count :: nat
  required_observation_types :: "string list"
  required_state_types :: "string list"

text \<open>\<^verbatim>\<open>reset\<close>: empty registries, counter 0.\<close>

definition reset :: "'v base_mot \<Rightarrow> 'v base_mot" where
  "reset s = s\<lparr>alive_tracklets := [], dead_tracklets := [], frame_count := 0\<rparr>"

text \<open>Python's \<^verbatim>\<open>x or y\<close> for an optional integer \<open>x\<close>: \<^verbatim>\<open>None\<close> and \<^verbatim>\<open>0\<close> are falsy.\<close>

fun truthy :: "int option \<Rightarrow> bool" where
  "truthy None = False"
| "truthy (Some n) = (n \<noteq> 0)"

fun py_or :: "int option \<Rightarrow> int \<Rightarrow> int" where
  "py_or None y = y"
| "py_or (Some n) y = (if n \<noteq> 0 then n else y)"

text \<open>\<^verbatim>\<open>__init__(window_size=1, step_size=None, max_staleness=5, min_length=5)\<close>; the last
  two arguments are the subclass's required types.\<close>

definition init ::
  "int \<Rightarrow> int option \<Rightarrow> int \<Rightarrow> int \<Rightarrow> string list \<Rightarrow> string list \<Rightarrow> 'v base_mot" where
  "init window_sz step_sz max_st min_len obs_types st_types =
     reset \<lparr>window_size = window_sz, step_size = py_or step_sz window_sz,
            max_staleness = max_st, min_length = min_len,
            alive_tracklets = [], dead_tracklets = [], frame_count = 0,
            required_observation_types = obs_types, required_state_types = st_types\<rparr>"

text \<open>\<^verbatim>\<open>_check_required_observations\<close>: raises \<^verbatim>\<open>ValueError\<close> when a required type is
  not a key of \<open>target\<close>.\<close>

definition missing_types :: "'v base_mot \<Rightarrow> 'v states \<Rightarrow> string list" where
  "missing_types s target =
     filter (\<lambda>required_type. required_type \<notin> set (map fst target))
       (required_observation_types s)"

definition check_required_observations :: "'v base_mot \<Rightarrow> 'v states \<Rightarrow> error + unit" where
  "check_required_observations s target =
     (if missing_types s target \<noteq> []
      then Inl (ValueError_missing_types (missing_types s target))
      else Inr ())"

text \<open>\<^verbatim>\<open>update_tracklet\<close>: the check comes first, so a failing call hands the tracklet
  back as it was (the second component of \<open>Inl\<close>).\<close>

definition update_tracklet ::
  "'v base_mot \<Rightarrow> 'v states tracklet \<Rightarrow> 'v states
     \<Rightarrow> (error \<times> 'v states tracklet) + 'v states tracklet" where
  "update_tracklet s tracklet states =
     (case check_required_observations s states of
        Inl e \<Rightarrow> Inl (e, tracklet)
      | Inr _ \<Rightarrow>
          Inr (increment_counter (update_observations tracklet states (frame_count s))))"

text \<open>\<^verbatim>\<open>create_tracklet\<close>; \<open>fresh_id\<close> is the identifier the new \<^verbatim>\<open>Tracklet\<close> draws.\<close>

definition create_tracklet ::
  "'v base_mot \<Rightarrow> nat \<Rightarrow> 'v states \<Rightarrow> error + 'v states tracklet" where
  "create_tracklet s fresh_id state =
     (let tracklet = Tracklet fresh_id (max_staleness s);
          tracklet = foldl register_observation_type tracklet (required_observation_types s);
          tracklet = foldl register_state_type tracklet (required_state_types s)
      in case check_required_observations s state of
           Inl e \<Rightarrow> Inl e
         | Inr _ \<Rightarrow>
             (case update_tracklet s tracklet state of
                Inl (e, _) \<Rightarrow> Inl e
              | Inr tracklet' \<Rightarrow> Inr tracklet'))"

text \<open>\<^verbatim>\<open>cleanup_tracklets\<close>: \<^verbatim>\<open>cleanup()\<close> on every tracklet, then the ones shorter than
  \<^verbatim>\<open>min_length\<close> are filtered out.\<close>

definition cleanup_tracklets ::
  "'v base_mot \<Rightarrow> 'v states tracklet list \<Rightarrow> 'v states tracklet list" where
  "cleanup_tracklets s tracklets =
     filter (\<lambda>tracklet. min_length s \<le> int (len_tracklet tracklet)) (map cleanup tracklets)"

definition increment_staleness :: "'o tracklet list \<Rightarrow> 'o tracklet list" where
  "increment_staleness tracklets = map (\<lambda>t. t\<lparr>staleness := staleness t + 1\<rparr>) tracklets"

definition reset_staleness :: "'o tracklet list \<Rightarrow> 'o tracklet list" where
  "reset_staleness tracklets = map (\<lambda>t. t\<lparr>staleness := 0\<rparr>) tracklets"

text \<open>\<^verbatim>\<open>separate_stale_tracklets\<close> returns \<open>(non_stale, stale)\<close>, each in the order of the
  input.\<close>

fun separate_stale_tracklets :: "'o tracklet list \<Rightarrow> 'o tracklet list \<times> 'o tracklet list" where
  "separate_stale_tracklets [] = ([], [])"
| "separate_stale_tracklets (t # ts) =
     (case separate_stale_tracklets ts of
        (non_stale, stale) \<Rightarrow>
          if is_stale t then (non_stale, t # stale) else (t # non_stale, stale))"

text \<open>A sequence item handed to \<^verbatim>\<open>process_sequence_item\<close>: a numpy array with its shape,
  or any other object.\<close>

datatype 'f seq_item = NdArray (shape: "nat list") (payload: "'f list") | PyObject 'f

fun is_batched :: "'f seq_item \<Rightarrow> bool" where
  "is_batched (NdArray sh _) = (length sh = 4)"
| "is_batched (PyObject _) = False"

text \<open>
  The abstract method \<^verbatim>\<open>update(current_frame, tracklets)\<close> is a parameter. It returns
  the three lists \<open>(assigned, new, unassigned)\<close>, or raises; since the tracklets it is
  given are the objects of the live list, a raise leaves that list's tracklets as the
  method had changed them so far, which is the second component of its \<open>Inl\<close>.
\<close>

type_synonym ('f, 'v) update_method =
  "'f seq_item \<Rightarrow> 'v base_mot \<Rightarrow> 'v states tracklet list
     \<Rightarrow> (error \<times> 'v states tracklet list)
       + ('v states tracklet list \<times> 'v states tracklet list \<times> 'v states tracklet list)"

text \<open>\<^verbatim>\<open>process_sequence_item\<close>. The counter is incremented first; the batched check
  and the call of \<^verbatim>\<open>update\<close> see the incremented counter.\<close>

definition process_sequence_item ::
  "('f, 'v) update_method \<Rightarrow> 'v base_mot \<Rightarrow> 'f seq_item
     \<Rightarrow> (error \<times> 'v base_mot) + 'v base_mot" where
  "process_sequence_item upd s sequence =
     (let s1 = s\<lparr>frame_count := frame_count s + 1\<rparr>;
          tracklets = alive_tracklets s1
      in if is_batched sequence then Inl (NotImplementedError, s1)
         else
           (case upd sequence s1 tracklets of
              Inl (e, ts) \<Rightarrow> Inl (e, s1\<lparr>alive_tracklets := ts\<rparr>)
            | Inr (assigned_tracklets, new_tracklets, unassigned_tracklets) \<Rightarrow>
                (let assigned_tracklets = reset_staleness assigned_tracklets;
                     unassigned_tracklets = increment_staleness unassigned_tracklets
                 in case separate_stale_tracklets unassigned_tracklets of
                      (non_stale_tracklets, stale_tracklets) \<Rightarrow>
                        (let stale_tracklets = cleanup_tracklets s1 stale_tracklets
                         in Inr (s1\<lparr>alive_tracklets :=
                                       assigned_tracklets @ new_tracklets @ non_stale_tracklets,
                                     dead_tracklets := dead_tracklets s1 @ stale_tracklets\<rparr>)))))"

text \<open>\<^verbatim>\<open>to_bbdf\<close>: the frames of the live and the archived tracklets, concatenated.
  \<^verbatim>\<open>pd.concat\<close> raises \<^verbatim>\<open>ValueError\<close> on an empty list. The export is modelled by the list
  of exported tracklets.\<close>

definition to_bbdf :: "'v base_mot \<Rightarrow> error + 'v states tracklet list" where
  "to_bbdf s =
     (let all_tracklets = alive_tracklets s @ dead_tracklets s
      in if all_tracklets = [] then Inl ValueError_concat else Inr all_tracklets)"

text \<open>The hooks \<^verbatim>\<open>pre_track\<close> and \<^verbatim>\<open>post_track\<close> do nothing in the base class.\<close>

definition pre_track :: "'v base_mot \<Rightarrow> 'v base_mot" where
  "pre_track s = s"

definition post_track :: "'v base_mot \<Rightarrow> 'v base_mot" where
  "post_track s = s"

text \<open>Python's \<^verbatim>\<open>range(start, stop, step)\<close> for a non-zero step (a zero step raises and
  is handled by the caller), and the slice \<^verbatim>\<open>xs[a:b]\<close> with Python's clamping of the
  bounds.\<close>

definition py_range :: "int \<Rightarrow> int \<Rightarrow> int \<Rightarrow> int list" where
  "py_range start stop stp =
     (if 0 < stp
      then map (\<lambda>k. start + int k * stp) [0..<nat ((stop - start + stp - 1) div stp)]
      else if stp < 0
      then map (\<lambda>k. start + int k * stp) [0..<nat ((start - stop - stp - 1) div (- stp))]
      else [])"

definition py_clamp :: "nat \<Rightarrow> int \<Rightarrow> nat" where
  "py_clamp n i = (if i < 0 then nat (max 0 (i + int n)) else min n (nat i))"

definition py_slice :: "'a list \<Rightarrow> int \<Rightarrow> int \<Rightarrow> 'a list" where
  "py_slice xs a b =
     (let lo = py_clamp (length xs) a; hi = py_clamp (length xs) b
      in take (hi - lo) (drop lo xs))"

text \<open>The argument of \<^verbatim>\<open>track\<close>: an object that is neither iterable nor an array, a
  Python list of frames, or a numpy array whose first axis indexes the frames (each
  frame of shape \<open>frame_shape\<close>).\<close>

datatype 'f source = NotIterable | PyList "'f list" | NdFrames (frame_shape: "nat list") "'f list"

fun source_len :: "'f source \<Rightarrow> nat" where
  "source_len NotIterable = 0"
| "source_len (PyList xs) = length xs"
| "source_len (NdFrames _ xs) = length xs"

text \<open>\<^verbatim>\<open>sequence[i : i + window_size].squeeze()\<close>: a list has no \<^verbatim>\<open>squeeze\<close>; on an array
  the axes of length 1 are dropped from the shape of the slice.\<close>

definition squeeze :: "nat list \<Rightarrow> nat list" where
  "squeeze sh = filter (\<lambda>d. d \<noteq> 1) sh"

fun window_item :: "'f source \<Rightarrow> int \<Rightarrow> int \<Rightarrow> error + 'f seq_item" where
  "window_item NotIterable i w = Inl AttributeError"
| "window_item (PyList xs) i w = Inl AttributeError"
| "window_item (NdFrames fsh xs) i w =
     (let sub = py_slice xs i (i + w) in Inr (NdArray (squeeze (length sub # fsh)) sub))"

fun track_loop ::
  "('f, 'v) update_method \<Rightarrow> 'f source \<Rightarrow> int list \<Rightarrow> 'v base_mot
     \<Rightarrow> (error \<times> 'v base_mot) + 'v base_mot" where
  "track_loop upd sequence [] s = Inr s"
| "track_loop upd sequence (i # is) s =
     (case window_item sequence i (window_size s) of
        Inl e \<Rightarrow> Inl (e, s)
      | Inr x \<Rightarrow>
          (case process_sequence_item upd s x of
             Inl es \<Rightarrow> Inl es
           | Inr s' \<Rightarrow> track_loop upd sequence is s'))"

text \<open>\<^verbatim>\<open>track\<close>: the type check, \<^verbatim>\<open>reset\<close>, the loop over the windows, the cleanup of the
  live tracklets after the loop, and the export.\<close>

definition track ::
  "('f, 'v) update_method \<Rightarrow> 'v base_mot \<Rightarrow> 'f source
     \<Rightarrow> (error \<times> 'v base_mot) + ('v states tracklet list \<times> 'v base_mot)" where
  "track upd s sequence =
     (case sequence of
        NotIterable \<Rightarrow> Inl (ValueError_sequence, s)
      | _ \<Rightarrow>
          (let s0 = pre_track (reset s)
           in if step_size s0 = 0 then Inl (ValueError_range_step, s0)
              else
                (case track_loop upd sequence
                        (py_range 0 (int (source_len sequence) - window_size s0 + 1)
                           (step_size s0)) s0 of
                   Inl es \<Rightarrow> Inl es
                 | Inr s1 \<Rightarrow>
                     (let s2 = s1\<lparr>alive_tracklets :=
                                     cleanup_tracklets s1 (alive_tracklets s1)\<rparr>;
                          s3 = post_track s2
                      in case to_bbdf s3 of
                           Inl e \<Rightarrow> Inl (e, s3)
                         | Inr bbdf \<Rightarrow> Inr (bbdf, s3)))))"


subsection \<open>A concrete subclass\<close>

text \<open>
  \<^verbatim>\<open>update\<close> is abstract, so running the orchestrator needs a subclass. This one reads
  a frame as a list of detections, each a state dictionary tagged with the identity of
  the object it shows: a detection tagged with the id of a live tracklet is assigned to
  it through \<^verbatim>\<open>update_tracklet\<close>, any other detection becomes a new tracklet through
  \<^verbatim>\<open>create_tracklet\<close>, and a live tracklet without a detection is unassigned.
\<close>

fun frame_detections :: "(nat \<times> 'v states) list seq_item \<Rightarrow> (nat \<times> 'v states) list" where
  "frame_detections (NdArray _ fs) = concat fs"
| "frame_detections (PyObject ds) = ds"

fun spawn_all :: "'v base_mot \<Rightarrow> (nat \<times> 'v states) list \<Rightarrow> error + 'v states tracklet list" where
  "spawn_all s [] = Inr []"
| "spawn_all s ((i, st) # ds) =
     (case create_tracklet s i st of
        Inl e \<Rightarrow> Inl e
      | Inr t \<Rightarrow> (case spawn_all s ds of Inl e \<Rightarrow> Inl e | Inr ts \<Rightarrow> Inr (t # ts)))"

fun assign_by_id ::
  "'v base_mot \<Rightarrow> (nat \<times> 'v states) list \<Rightarrow> 'v states tracklet list
     \<Rightarrow> (error \<times> 'v states tracklet list) + 'v states tracklet list" where
  "assign_by_id s ds [] = Inr []"
| "assign_by_id s ds (t # ts) =
     (case map_of ds (tid t) of
        None \<Rightarrow>
          (case assign_by_id s ds ts of
             Inl (e, ts') \<Rightarrow> Inl (e, t # ts')
           | Inr assigned \<Rightarrow> Inr assigned)
      | Some st \<Rightarrow>
          (case update_tracklet s t st of
             Inl (e, t') \<Rightarrow> Inl (e, t' # ts)
           | Inr t' \<Rightarrow>
               (case assign_by_id s ds ts of
                  Inl (e, ts') \<Rightarrow> Inl (e, t' # ts')
                | Inr assigned \<Rightarrow> Inr (t' # assigned))))"

definition tagged_update :: "((nat \<times> 'v states) list, 'v) update_method" where
  "tagged_update frame s tracklets =
     (let ds = frame_detections frame
      in case spawn_all s (filter (\<lambda>d. fst d \<notin> set (map tid tracklets)) ds) of
           Inl e \<Rightarrow> Inl (e, tracklets)
         | Inr new \<Rightarrow>
             (case assign_by_id s ds tracklets of
                Inl et \<Rightarrow> Inl et
              | Inr assigned \<Rightarrow>
                  Inr (assigned, new, filter (\<lambda>t. map_of ds (tid t) = None) tracklets)))"



fun raised :: "(error \<times> 's) + 'r \<Rightarrow> error option" where
  "raised (Inl (e, _)) = Some e"
| "raised (Inr _) = None"

fun state_after :: "(error \<times> 's) + 's \<Rightarrow> 's" where
  "state_after (Inl (_, s)) = s"
| "state_after (Inr s) = s"

subsection \<open>Following one tracklet through a run\<close>





subsection \<open>Concrete inputs\<close>

text \<open>An orchestrator with \<^verbatim>\<open>max_staleness=2, min_length=1\<close> whose subclass requires the
  type \<^verbatim>\<open>box\<close>; a tracklet that has been seen once and missed twice; and the
  orchestrator holding it.\<close>

definition demo_mot :: "nat base_mot" where
  "demo_mot = init 1 None 2 1 [''box''] []"

definition demo_tracklet :: "nat states tracklet" where
  "demo_tracklet =
     (Tracklet 7 2)\<lparr>observations := [Some [(''box'', 1)]], staleness := 2,
                     observation_types := [''box'']\<rparr>"

definition demo_mot_live :: "nat base_mot" where
  "demo_mot_live = demo_mot\<lparr>alive_tracklets := [demo_tracklet], frame_count := 3\<rparr>"



section \<open>The second orchestrator (\<^verbatim>\<open>sportslabkit/tracking_model/multi_object_tracker.py\<close>)\<close>

text \<open>
  The attributes of this \<^verbatim>\<open>MultiObjectTracker\<close>. \<^verbatim>\<open>matching_fn\<close> returns the array of
  \<open>(track_idx, det_idx)\<close> rows as a list of pairs. \<^verbatim>\<open>tracker_class(**tracker_kwargs)\<close> is a
  function of the fresh identifier the new tracklet draws, and \<open>id_supply\<close> is the next
  identifier to be drawn.
\<close>

record 'd model_mot =
  matching_fn :: "'d tracklet list \<Rightarrow> 'd list \<Rightarrow> (nat \<times> nat) list"
  tracker_class :: "nat \<Rightarrow> 'd tracklet"
  trackers :: "'d tracklet list"
  stale_trackers :: "'d tracklet list"
  detections_matched_ids :: "nat option list"
  current_step :: nat
  id_supply :: nat

text \<open>\<^verbatim>\<open>instatiate_tracker_with_detection\<close>: a new tracker, updated once with the
  detection (no \<^verbatim>\<open>global_step\<close> is passed).\<close>

definition instatiate_tracker_with_detection ::
  "'d model_mot \<Rightarrow> 'd \<Rightarrow> 'd tracklet \<times> 'd model_mot" where
  "instatiate_tracker_with_detection s detection =
     (update (tracker_class s (id_supply s)) (Some detection) None,
      s\<lparr>id_supply := id_supply s + 1\<rparr>)"


text \<open>\<^verbatim>\<open>cleanup_trackers\<close>. \<^verbatim>\<open>Tracklet.is_invalid\<close> is neither in the sources nor in the
  spec, so the predicate is a parameter.\<close>

definition cleanup_trackers :: "('d tracklet \<Rightarrow> bool) \<Rightarrow> 'd model_mot \<Rightarrow> 'd model_mot" where
  "cleanup_trackers is_invalid s =
     s\<lparr>stale_trackers :=
         stale_trackers s @ filter (\<lambda>t. is_stale t \<and> \<not> is_invalid t) (trackers s),
       trackers := filter (\<lambda>t. \<not> (is_stale t \<or> is_invalid t)) (trackers s)\<rparr>"

text \<open>
  The first loop of \<^verbatim>\<open>step\<close>: for each row of \<open>matches\<close>, in order, the tracker is updated
  with the detection and its id is stored at the detection's index. An index outside
  either list raises \<^verbatim>\<open>IndexError\<close>, with the earlier rows already applied.
\<close>

fun apply_matches ::
  "'d list \<Rightarrow> (nat \<times> nat) list \<Rightarrow> 'd model_mot \<Rightarrow> (error \<times> 'd model_mot) + 'd model_mot" where
  "apply_matches detections [] s = Inr s"
| "apply_matches detections ((track_idx, det_idx) # ms) s =
     (if track_idx < length (trackers s) \<and> det_idx < length detections
      then apply_matches detections ms
             (s\<lparr>trackers := (trackers s)
                   [track_idx := update (trackers s ! track_idx) (Some (detections ! det_idx))
                                   (Some (current_step s))],
                 detections_matched_ids := (detections_matched_ids s)
                   [det_idx := Some (tid (trackers s ! track_idx))]\<rparr>)
      else Inl (IndexError, s))"

text \<open>
  The order in which \<^verbatim>\<open>set(range(n)).difference(assigned)\<close> is iterated. Python leaves
  the order of a set open; CPython yields ascending order when \<open>assigned\<close> is the empty
  list, and otherwise an order that depends on its hash table. \<open>rank\<close> stands for that
  order: the members are sorted by the rank it gives them.
\<close>

definition difference_order :: "(nat list \<Rightarrow> nat \<Rightarrow> nat) \<Rightarrow> nat \<Rightarrow> nat list \<Rightarrow> nat list" where
  "difference_order rank n assigned =
     (let members = filter (\<lambda>j. j \<notin> set assigned) [0..<n]
      in if assigned = [] then members else sort_key (rank members) members)"

text \<open>The second loop: each detection index that no row names gets a new tracker,
  appended to \<^verbatim>\<open>self.trackers\<close>.\<close>

fun create_trackers :: "'d list \<Rightarrow> nat list \<Rightarrow> 'd model_mot \<Rightarrow> 'd model_mot" where
  "create_trackers detections [] s = s"
| "create_trackers detections (det_idx # js) s =
     (case instatiate_tracker_with_detection s (detections ! det_idx) of
        (tracker, s') \<Rightarrow>
          create_trackers detections js
            (s'\<lparr>detections_matched_ids :=
                  (detections_matched_ids s')[det_idx := Some (tid tracker)],
                trackers := trackers s' @ [tracker]\<rparr>))"

text \<open>The third loop: each listed tracker index gets \<^verbatim>\<open>update(None, global_step)\<close>.\<close>

fun update_unassigned :: "nat list \<Rightarrow> 'd model_mot \<Rightarrow> 'd model_mot" where
  "update_unassigned [] s = s"
| "update_unassigned (track_idx # is) s =
     update_unassigned is
       (s\<lparr>trackers := (trackers s)
             [track_idx := update (trackers s ! track_idx) None (Some (current_step s))]\<rparr>)"

text \<open>
  \<^verbatim>\<open>step\<close> up to the cleanup: matching, the three loops. The index range of the third
  loop is \<^verbatim>\<open>range(len(self.trackers))\<close> read after the second loop has appended the new
  trackers. The debug lines that format the box and the score of each detection are
  left out: the detections are well-formed \<^verbatim>\<open>Detection\<close> objects.
\<close>

definition step_updates ::
  "(nat list \<Rightarrow> nat \<Rightarrow> nat) \<Rightarrow> 'd model_mot \<Rightarrow> 'd list
     \<Rightarrow> (error \<times> 'd model_mot) + 'd model_mot" where
  "step_updates rank s detections =
     (let matches = matching_fn s (trackers s) detections;
          s1 = s\<lparr>detections_matched_ids := replicate (length detections) None\<rparr>
      in case apply_matches detections matches s1 of
           Inl es \<Rightarrow> Inl es
         | Inr s2 \<Rightarrow>
             (let assigned_det_idxs = (if 0 < length matches then map snd matches else []);
                  s3 = create_trackers detections
                         (difference_order rank (length detections) assigned_det_idxs) s2;
                  assigned_track_idxs = (if 0 < length matches then map fst matches else []);
                  s4 = update_unassigned
                         (difference_order rank (length (trackers s3)) assigned_track_idxs) s3
              in Inr s4))"

text \<open>\<^verbatim>\<open>step\<close>: the updates, then \<^verbatim>\<open>cleanup_trackers\<close>, then the counter. (The returned
  list \<^verbatim>\<open>active_trackers()\<close> is a view of the new state and is not modelled.)\<close>

definition step ::
  "(nat list \<Rightarrow> nat \<Rightarrow> nat) \<Rightarrow> ('d tracklet \<Rightarrow> bool) \<Rightarrow> 'd model_mot \<Rightarrow> 'd list
     \<Rightarrow> (error \<times> 'd model_mot) + 'd model_mot" where
  "step rank is_invalid s detections =
     (case step_updates rank s detections of
        Inl es \<Rightarrow> Inl es
      | Inr s4 \<Rightarrow>
          (let s5 = cleanup_trackers is_invalid s4
           in Inr (s5\<lparr>current_step := current_step s5 + 1\<rparr>)))"

subsection \<open>What a frame without matches should produce\<close>



subsection \<open>Concrete inputs\<close>

text \<open>A second orchestrator whose matching function pairs nothing, one whose matching
  function names tracker 0 twice, and one tracker that has seen one detection.\<close>

definition demo_model :: "nat model_mot" where
  "demo_model =
     \<lparr>matching_fn = (\<lambda>_ _. []), tracker_class = (\<lambda>i. Tracklet i 5), trackers = [],
      stale_trackers = [], detections_matched_ids = [], current_step = 0, id_supply = 0\<rparr>"

definition demo_tracker :: "nat tracklet" where
  "demo_tracker = update (Tracklet 0 5) (Some 10) None"

definition demo_model_dup :: "nat model_mot" where
  "demo_model_dup =
     demo_model\<lparr>matching_fn := (\<lambda>_ _. [(0, 0), (0, 1)]), trackers := [demo_tracker],
                 current_step := 1, id_supply := 1\<rparr>"


section \<open>Theorems\<close>

lemma separate_stale_tracklets_filter:
  "separate_stale_tracklets ts = (filter (\<lambda>t. \<not> is_stale t) ts, filter is_stale ts)"
  by (induction ts) auto

subsection \<open>One frame of the ABC-based orchestrator\<close>

lemma process_sequence_item_Inr:
  assumes "\<not> is_batched x"
    and "upd x (s\<lparr>frame_count := frame_count s + 1\<rparr>) (alive_tracklets s) = Inr (a, n, u)"
  shows "process_sequence_item upd s x =
           Inr (s\<lparr>frame_count := frame_count s + 1,
                  alive_tracklets :=
                    reset_staleness a @ n @
                    filter (\<lambda>t. \<not> is_stale t) (increment_staleness u),
                  dead_tracklets :=
                    dead_tracklets s @
                    filter (\<lambda>t. min_length s \<le> int (len_tracklet t))
                      (map cleanup (filter is_stale (increment_staleness u)))\<rparr>)"
  using assms
  by (simp add: process_sequence_item_def separate_stale_tracklets_filter
      cleanup_tracklets_def Let_def)

lemma same_tid_same_tracklet:
  "distinct (map tid ts) \<Longrightarrow> x \<in> set ts \<Longrightarrow> y \<in> set ts \<Longrightarrow> tid x = tid y \<Longrightarrow> x = y"
  by (auto simp: distinct_map inj_on_def)

text \<open>
  C2. A tracklet that is stale at the end of the update phase of a frame (after the
  staleness of the assigned tracklets is reset and that of the unassigned ones
  incremented) is not in the live registry after the frame's cleanup, and it is in
  the archive iff its length is at least \<open>min_length\<close>. The tracklets are told apart by
  their identifiers; \<open>max_staleness\<close> is non-negative and a new tracklet is not stale, as
  the configuration surface and the factory promise.
\<close>

theorem stale_tracklet_evicted:
  assumes nb: "\<not> is_batched x"
    and u: "upd x (s\<lparr>frame_count := frame_count s + 1\<rparr>) (alive_tracklets s) = Inr (a, n, u)"
    and d: "distinct (map tid (a @ n @ u @ dead_tracklets s))"
    and a: "\<forall>t\<in>set a. 0 \<le> t_max_staleness t"
    and n: "\<forall>t\<in>set n. \<not> is_stale t"
    and t: "t \<in> set (reset_staleness a @ n @ increment_staleness u)"
    and st: "is_stale t"
  shows "\<exists>s'. process_sequence_item upd s x = Inr s'
            \<and> tid t \<notin> tid ` set (alive_tracklets s')
            \<and> (tid t \<in> tid ` set (dead_tracklets s')
                 \<longleftrightarrow> min_length s \<le> int (len_tracklet t))"
proof -
  let ?iu = "increment_staleness u"
  have not_a: "t \<notin> set (reset_staleness a)"
    using a st by (auto simp: reset_staleness_def is_stale_def)
  have not_n: "t \<notin> set n" using n st by auto
  from t not_a not_n have tu: "t \<in> set ?iu" by auto
  have du: "distinct (map tid ?iu)" using d by (simp add: increment_staleness_def comp_def)
  have tidu: "tid t \<in> tid ` set u"
    using tu by (auto simp: increment_staleness_def)
  have out_a: "tid t \<notin> tid ` set (reset_staleness a)"
    using d tidu by (auto simp: reset_staleness_def)
  have out_n: "tid t \<notin> tid ` set n" using d tidu by auto
  have out_dead: "tid t \<notin> tid ` set (dead_tracklets s)" using d tidu by auto
  have out_u: "tid t \<notin> tid ` set (filter (\<lambda>t. \<not> is_stale t) ?iu)"
  proof
    assume "tid t \<in> tid ` set (filter (\<lambda>t. \<not> is_stale t) ?iu)"
    then obtain t2 where t2: "t2 \<in> set ?iu" "\<not> is_stale t2" "tid t = tid t2" by auto
    from same_tid_same_tracklet [OF du tu t2(1) t2(3)] st t2(2) show False by simp
  qed
  have arch: "tid t \<in> tid ` set (filter (\<lambda>t. min_length s \<le> int (len_tracklet t))
                       (map cleanup (filter is_stale ?iu)))
              \<longleftrightarrow> min_length s \<le> int (len_tracklet t)" (is "?L \<longleftrightarrow> ?R")
  proof
    assume ?L
    then obtain t2 where t2: "t2 \<in> set ?iu" "is_stale t2"
        "min_length s \<le> int (len_tracklet (cleanup t2))" "tid t = tid (cleanup t2)"
      by auto
    have "tid t = tid t2" using t2(4) by (simp add: cleanup_def)
    from same_tid_same_tracklet [OF du tu t2(1) this] have "t = t2" .
    with t2(3) show ?R by (simp add: cleanup_def len_tracklet_def)
  next
    assume ?R
    then have "cleanup t \<in> set (filter (\<lambda>t. min_length s \<le> int (len_tracklet t))
                       (map cleanup (filter is_stale ?iu)))"
      using tu st by (simp add: cleanup_def len_tracklet_def)
    moreover have "tid (cleanup t) = tid t" by (simp add: cleanup_def)
    ultimately show ?L by (metis imageI)
  qed
  show ?thesis
    unfolding process_sequence_item_Inr [of x upd s a n u, OF nb u]
    using out_a out_n out_u out_dead arch by (simp add: image_Un)
qed

text \<open>The tracklet missed twice is missed a third time: staleness 3 exceeds 2, it leaves
  the live registry and, with length 1 and \<open>min_length = 1\<close>, is archived.\<close>

theorem stale_tracklet_evicted_witness:
  "is_stale (demo_tracklet\<lparr>staleness := 3\<rparr>)
   \<and> (\<exists>s'. process_sequence_item tagged_update demo_mot_live (PyObject []) = Inr s'
          \<and> 7 \<notin> tid ` set (alive_tracklets s')
          \<and> 7 \<in> tid ` set (dead_tracklets s'))"
proof -
  define x where "x = (PyObject [] :: (nat \<times> nat states) list seq_item)"
  define t where "t = demo_tracklet\<lparr>staleness := 3\<rparr>"
  have h1: "\<not> is_batched x" unfolding x_def by simp
  have h2: "tagged_update x (demo_mot_live\<lparr>frame_count := frame_count demo_mot_live + 1\<rparr>)
              (alive_tracklets demo_mot_live) = Inr ([], [], [demo_tracklet])"
    unfolding x_def by code_simp
  have h3: "distinct (map tid ([] @ [] @ [demo_tracklet] @ dead_tracklets demo_mot_live))"
    by code_simp
  have h4: "\<forall>t\<in>set ([] :: nat states tracklet list). 0 \<le> t_max_staleness t" by simp
  have h5: "\<forall>t\<in>set ([] :: nat states tracklet list). \<not> is_stale t" by simp
  have h6: "t \<in> set (reset_staleness [] @ [] @ increment_staleness [demo_tracklet])"
    unfolding t_def by code_simp
  have h7: "is_stale t" unfolding t_def by code_simp
  have v: "tid t = 7" "min_length demo_mot_live \<le> int (len_tracklet t)"
    unfolding t_def by code_simp+
  from stale_tracklet_evicted
         [where upd = tagged_update and s = demo_mot_live and x = x and a = "[]"
            and n = "[]" and u = "[demo_tracklet]" and t = t,
          OF h1 h2 h3 h4 h5 h6 h7]
  obtain s' where "process_sequence_item tagged_update demo_mot_live x = Inr s'"
    "tid t \<notin> tid ` set (alive_tracklets s')"
    "tid t \<in> tid ` set (dead_tracklets s') \<longleftrightarrow> min_length demo_mot_live \<le> int (len_tracklet t)"
    by blast
  with v h7 show ?thesis unfolding x_def t_def by auto
qed

subsection \<open>Staleness along a run\<close>










subsection \<open>Exceptions of the ABC-based orchestrator\<close>

lemma raised_None: "raised r = None \<Longrightarrow> r = Inr (state_after r)"
  by (cases r) auto

text \<open>
  C4, as the claim states it, fails: a detection without the required type \<^verbatim>\<open>box\<close>
  makes the frame raise, and the frame counter, 0 before the call, is 1 after it.
\<close>

theorem missing_type_counterexample:
  "raised (process_sequence_item tagged_update demo_mot (PyObject [(7, [(''score'', 1)])]))
     = Some (ValueError_missing_types [''box''])
   \<and> frame_count demo_mot = 0
   \<and> frame_count (state_after
        (process_sequence_item tagged_update demo_mot (PyObject [(7, [(''score'', 1)])]))) = 1"
  by code_simp

text \<open>
  C4, amended. When a required observation type is missing, \<^verbatim>\<open>update_tracklet\<close> and
  \<^verbatim>\<open>create_tracklet\<close> raise \<^verbatim>\<open>ValueError\<close> before the tracklet they were given is changed.
  When \<^verbatim>\<open>update\<close> raises, \<^verbatim>\<open>process_sequence_item\<close> passes the exception on without
  rolling the frame back: the archive is untouched and the live list is not reassigned
  (its tracklets are as \<^verbatim>\<open>update\<close> left them), but the frame counter stays advanced by 1.
\<close>

theorem missing_type_raises_without_rollback:
  "(missing_types s states \<noteq> [] \<longrightarrow>
      update_tracklet s t states = Inl (ValueError_missing_types (missing_types s states), t)
      \<and> create_tracklet s i states = Inl (ValueError_missing_types (missing_types s states)))
   \<and> (\<not> is_batched x
        \<and> upd x (s\<lparr>frame_count := frame_count s + 1\<rparr>) (alive_tracklets s) = Inl (e, ts) \<longrightarrow>
      process_sequence_item upd s x
        = Inl (e, s\<lparr>frame_count := frame_count s + 1, alive_tracklets := ts\<rparr>))"
  by (simp add: update_tracklet_def create_tracklet_def check_required_observations_def
      process_sequence_item_def Let_def)

theorem missing_type_raises_without_rollback_witness:
  "missing_types demo_mot [(''score'', 1)] = [''box'']
   \<and> update_tracklet demo_mot demo_tracklet [(''score'', 1)]
       = Inl (ValueError_missing_types [''box''], demo_tracklet)
   \<and> create_tracklet demo_mot 9 [(''score'', 1)] = Inl (ValueError_missing_types [''box''])
   \<and> process_sequence_item tagged_update demo_mot (PyObject [(7, [(''score'', 1)])])
       = Inl (ValueError_missing_types [''box''],
              demo_mot\<lparr>frame_count := 1, alive_tracklets := []\<rparr>)"
proof -
  let ?x = "PyObject [(7, [(''score'', 1)])] :: (nat \<times> nat states) list seq_item"
  have m: "missing_types demo_mot [(''score'', 1)] = [''box'']" by code_simp
  have f: "frame_count demo_mot = 0" "alive_tracklets demo_mot = []" by code_simp+
  have nb: "\<not> is_batched ?x" by simp
  have u: "tagged_update ?x (demo_mot\<lparr>frame_count := frame_count demo_mot + 1\<rparr>)
             (alive_tracklets demo_mot) = Inl (ValueError_missing_types [''box''], [])"
    by code_simp
  from missing_type_raises_without_rollback
         [where s = demo_mot and states = "[(''score'', 1)]" and t = demo_tracklet and i = 9
            and x = ?x and upd = tagged_update and e = "ValueError_missing_types [''box'']"
            and ts = "[]"]
       m f nb u
  show ?thesis by simp
qed

text \<open>
  C5, as the claim states it, fails: a four-dimensional array makes
  \<^verbatim>\<open>process_sequence_item\<close> raise \<^verbatim>\<open>NotImplementedError\<close>, and the frame counter, 0 before
  the call, is 1 after it.
\<close>

theorem batched_item_counterexample:
  "raised (process_sequence_item tagged_update demo_mot (NdArray [2, 3, 4, 5] [[], []]))
     = Some NotImplementedError
   \<and> frame_count demo_mot = 0
   \<and> frame_count (state_after
        (process_sequence_item tagged_update demo_mot (NdArray [2, 3, 4, 5] [[], []]))) = 1"
  by code_simp

text \<open>
  C5, amended. A batched item makes \<^verbatim>\<open>process_sequence_item\<close> raise
  \<^verbatim>\<open>NotImplementedError\<close> before \<^verbatim>\<open>update\<close> is called: the live list and the archive are
  untouched, and the frame counter has been advanced by 1. A source that is neither
  iterable nor an array makes \<^verbatim>\<open>track\<close> raise \<^verbatim>\<open>ValueError\<close> with the orchestrator
  unchanged.
\<close>

theorem invalid_input_raises:
  "(is_batched x \<longrightarrow>
      process_sequence_item upd s x
        = Inl (NotImplementedError, s\<lparr>frame_count := frame_count s + 1\<rparr>))
   \<and> track upd s NotIterable = Inl (ValueError_sequence, s)"
  by (simp add: process_sequence_item_def track_def)

theorem invalid_input_raises_witness:
  "is_batched (NdArray [2, 3, 4, 5] [[], []] :: (nat \<times> nat states) list seq_item)
   \<and> process_sequence_item tagged_update demo_mot_live (NdArray [2, 3, 4, 5] [[], []])
       = Inl (NotImplementedError, demo_mot_live\<lparr>frame_count := 4\<rparr>)
   \<and> track tagged_update demo_mot_live NotIterable = Inl (ValueError_sequence, demo_mot_live)"
proof -
  have f: "frame_count demo_mot_live = 3" by code_simp
  from invalid_input_raises
         [where x = "NdArray [2, 3, 4, 5] [[], []]" and upd = tagged_update
            and s = demo_mot_live] f
  show ?thesis by simp
qed

subsection \<open>The loops of \<^verbatim>\<open>step\<close>\<close>

lemma apply_matches_current_step:
  "current_step (state_after (apply_matches dets ms s)) = current_step s"
  by (induction dets ms s rule: apply_matches.induct) auto


lemma create_trackers_result:
  "trackers (create_trackers dets js s) =
     trackers s @ map (\<lambda>(k, j). update (tracker_class s k) (Some (dets ! j)) None)
                    (enumerate (id_supply s) js)
   \<and> stale_trackers (create_trackers dets js s) = stale_trackers s
   \<and> current_step (create_trackers dets js s) = current_step s
   \<and> tracker_class (create_trackers dets js s) = tracker_class s
   \<and> matching_fn (create_trackers dets js s) = matching_fn s
   \<and> id_supply (create_trackers dets js s) = id_supply s + length js
   \<and> length (detections_matched_ids (create_trackers dets js s))
       = length (detections_matched_ids s)"
  by (induction dets js s rule: create_trackers.induct)
     (simp_all add: instatiate_tracker_with_detection_def)




lemma update_unassigned_fields:
  "stale_trackers (update_unassigned js s) = stale_trackers s
   \<and> current_step (update_unassigned js s) = current_step s
   \<and> id_supply (update_unassigned js s) = id_supply s
   \<and> detections_matched_ids (update_unassigned js s) = detections_matched_ids s"
  by (induction js s rule: update_unassigned.induct) simp_all




lemma step_updates_current_step:
  "current_step (state_after (step_updates rank s dets)) = current_step s"
proof -
  let ?s1 = "s\<lparr>detections_matched_ids := replicate (length dets) None\<rparr>"
  let ?r = "apply_matches dets (matching_fn s (trackers s) dets) ?s1"
  have "current_step (state_after ?r) = current_step s"
    by (simp add: apply_matches_current_step)
  then show ?thesis
    by (cases ?r)
       (auto simp: step_updates_def Let_def update_unassigned_fields create_trackers_result)
qed







text \<open>
  C1. No tracklet is to be updated more than once per frame, new ones included.
  \<^verbatim>\<open>step\<close> breaks this for the new ones: with no tracker, one detection and an empty
  matching result, the tracker created in the frame is updated twice, once with the
  detection and once with \<^verbatim>\<open>None\<close>, and leaves its first frame with staleness 1.
\<close>

theorem new_tracker_updated_twice:
  "matching_fn demo_model (trackers demo_model) [10] = []
   \<and> raised (step (\<lambda>_ j. j) (\<lambda>_. False) demo_model [10]) = None
   \<and> map observations (trackers (state_after (step (\<lambda>_ j. j) (\<lambda>_. False) demo_model [10])))
       = [[Some 10, None]]
   \<and> map staleness (trackers (state_after (step (\<lambda>_ j. j) (\<lambda>_. False) demo_model [10])))
       = [1]"
  by code_simp







subsection \<open>The counters\<close>

text \<open>
  C9, as the claim states it, fails for the ABC-based orchestrator: the frame processed
  when the counter is 0 records its update under step 1, because the counter is
  incremented before \<^verbatim>\<open>update\<close> runs.
\<close>

theorem counter_advance_counterexample:
  "frame_count demo_mot = 0
   \<and> map last_updated_step (alive_tracklets (state_after
        (process_sequence_item tagged_update demo_mot (PyObject [(7, [(''box'', 1)])]))))
     = [Some 1]"
  by code_simp

text \<open>
  C9, amended. Each orchestrator advances its counter by exactly 1 per processed frame.
  In \<^verbatim>\<open>process_sequence_item\<close> the advance is the first action: it stands whether the
  frame then raises or not, and \<^verbatim>\<open>update\<close> is called with the counter already advanced.
  In \<^verbatim>\<open>step\<close> the advance is the last action: matching, updates, creations and the
  cleanup run with the old value, and a frame that raises leaves the counter as it was.
\<close>

theorem counter_advances_by_one:
  "frame_count (state_after (process_sequence_item upd s x)) = frame_count s + 1
   \<and> (process_sequence_item upd s x = Inr s' \<longrightarrow>
        (\<exists>a n u. upd x (s\<lparr>frame_count := frame_count s + 1\<rparr>) (alive_tracklets s)
                    = Inr (a, n, u)))
   \<and> (step rank is_invalid m dets = Inr m' \<longrightarrow>
        current_step m' = current_step m + 1
        \<and> (\<exists>m4. step_updates rank m dets = Inr m4 \<and> current_step m4 = current_step m
              \<and> m' = (cleanup_trackers is_invalid m4)\<lparr>current_step := current_step m + 1\<rparr>))
   \<and> (raised (step rank is_invalid m dets) \<noteq> None \<longrightarrow>
        current_step (state_after (step rank is_invalid m dets)) = current_step m)"
proof -
  have A1: "frame_count (state_after (process_sequence_item upd s x)) = frame_count s + 1"
    by (auto simp: process_sequence_item_def Let_def separate_stale_tracklets_filter
        split: sum.splits prod.splits)
  have A2: "process_sequence_item upd s x = Inr s' \<longrightarrow>
        (\<exists>a n u. upd x (s\<lparr>frame_count := frame_count s + 1\<rparr>) (alive_tracklets s)
                    = Inr (a, n, u))"
    by (auto simp: process_sequence_item_def Let_def split: sum.splits prod.splits if_splits)
  have cs: "current_step (state_after (step_updates rank m dets)) = current_step m"
    by (rule step_updates_current_step)
  have B1: "step rank is_invalid m dets = Inr m' \<longrightarrow>
        current_step m' = current_step m + 1
        \<and> (\<exists>m4. step_updates rank m dets = Inr m4 \<and> current_step m4 = current_step m
              \<and> m' = (cleanup_trackers is_invalid m4)\<lparr>current_step := current_step m + 1\<rparr>)"
    using cs by (cases "step_updates rank m dets")
      (auto simp: step_def Let_def cleanup_trackers_def)
  have B2: "raised (step rank is_invalid m dets) \<noteq> None \<longrightarrow>
        current_step (state_after (step rank is_invalid m dets)) = current_step m"
    using cs by (cases "step_updates rank m dets") (auto simp: step_def Let_def)
  from A1 A2 B1 B2 show ?thesis by blast
qed

theorem counter_advances_by_one_witness:
  "frame_count (state_after (process_sequence_item tagged_update demo_mot_live (PyObject [])))
     = 4
   \<and> raised (step (\<lambda>_ j. j) (\<lambda>_. False) demo_model_dup [20, 21]) = None
   \<and> current_step (state_after (step (\<lambda>_ j. j) (\<lambda>_. False) demo_model_dup [20, 21])) = 2"
proof -
  let ?r = "step (\<lambda>_ j. j) (\<lambda>_. False) demo_model_dup [20, 21]"
  have f: "frame_count demo_mot_live = 3" "current_step demo_model_dup = 1" by code_simp+
  have n: "raised ?r = None" by code_simp
  from raised_None [OF n] have r: "?r = Inr (state_after ?r)" .
  from counter_advances_by_one
         [where upd = tagged_update and s = demo_mot_live and x = "PyObject []"
            and rank = "\<lambda>_ j. j" and is_invalid = "\<lambda>_. False" and m = demo_model_dup
            and dets = "[20, 21]" and m' = "state_after ?r"]
       f n r
  show ?thesis by simp
qed

subsection \<open>The end of the input\<close>





text \<open>
  C10. The constructor stores the given \<open>step_size\<close> when it is truthy and
  \<open>window_size\<close> otherwise; \<open>step_size = 0\<close> silently yields \<open>window_size\<close>.
\<close>

theorem init_step_size:
  "step_size (init w ss ms ml ro rs :: 'v base_mot) = (if truthy ss then the ss else w)
   \<and> step_size (init w (Some 0) ms ml ro rs :: 'v base_mot) = w
   \<and> step_size (init w None ms ml ro rs :: 'v base_mot) = w
   \<and> window_size (init w ss ms ml ro rs :: 'v base_mot) = w"
  by (cases ss) (simp_all add: init_def reset_def)

theorem init_step_size_witness:
  "step_size (init 3 (Some 0) 5 5 [''box''] [] :: nat base_mot) = 3
   \<and> step_size (init 3 (Some 2) 5 5 [''box''] [] :: nat base_mot) = 2
   \<and> step_size (init 3 None 5 5 [''box''] [] :: nat base_mot) = 3"
  using init_step_size [of 3 "Some 0" 5 5 "[''box'']" "[]", where ?'v = nat]
        init_step_size [of 3 "Some 2" 5 5 "[''box'']" "[]", where ?'v = nat]
        init_step_size [of 3 None 5 5 "[''box'']" "[]", where ?'v = nat]
  by simp

end
